theory Spec2Isabelle
  imports Complex_Main
begin

section \<open>Configuration (config.js)\<close>

text \<open>
  The constants of \<^verbatim>\<open>CONFIG\<close> that the simulation engine reads. JavaScript numbers are
  modelled as \<^typ>\<open>real\<close> (sensor values, scores, battery levels), counters as
  \<^typ>\<open>nat\<close>; clock readings and delays are numbers of milliseconds.
\<close>

definition TICK_INTERVAL :: real where "TICK_INTERVAL = 6000"
definition STARTUP_STABLE_DURATION :: real where "STARTUP_STABLE_DURATION = 15000"
definition SCENARIO_DELAY :: real where "SCENARIO_DELAY = 10000"

definition POWER_NOMINAL_MIN :: real where "POWER_NOMINAL_MIN = 38"
definition POWER_WARNING_LOW :: real where "POWER_WARNING_LOW = 38"
definition POWER_CRITICAL_LOW :: real where "POWER_CRITICAL_LOW = 32"
definition PRESSURE_NOMINAL_MIN :: real where "PRESSURE_NOMINAL_MIN = 135"
definition PRESSURE_WARNING_LOW :: real where "PRESSURE_WARNING_LOW = 135"
definition PRESSURE_CRITICAL_LOW :: real where "PRESSURE_CRITICAL_LOW = 125"
definition TEMPERATURE_NOMINAL_MAX :: real where "TEMPERATURE_NOMINAL_MAX = 75"
definition TEMPERATURE_WARNING_THRESHOLD :: real where "TEMPERATURE_WARNING_THRESHOLD = 75"
definition TEMPERATURE_CRITICAL_THRESHOLD :: real where "TEMPERATURE_CRITICAL_THRESHOLD = 85"

definition COOLING_DEFAULT :: real where "COOLING_DEFAULT = 30"

definition PENALTY_WARNING :: real where "PENALTY_WARNING = 10"
definition PENALTY_CRITICAL :: real where "PENALTY_CRITICAL = 25"
definition PENALTY_TREND :: real where "PENALTY_TREND = 5"
definition THRESHOLD_NORMAL :: real where "THRESHOLD_NORMAL = 86"
definition THRESHOLD_DEGRADED :: real where "THRESHOLD_DEGRADED = 71"

datatype op_state = NORMAL | DEGRADED | CRITICAL | PAUSED

datatype scenario_type = NONE | POWER_SAG | PRESSURE_DRIFT | OVERHEAT

text \<open>\<^verbatim>\<open>CONFIG.SCENARIO_WEIGHTS\<close>, commented "for random selection" in config.js.\<close>

fun SCENARIO_WEIGHTS :: "scenario_type \<Rightarrow> real" where
  "SCENARIO_WEIGHTS POWER_SAG = 40 / 100"
| "SCENARIO_WEIGHTS PRESSURE_DRIFT = 35 / 100"
| "SCENARIO_WEIGHTS OVERHEAT = 25 / 100"
| "SCENARIO_WEIGHTS NONE = 0"

definition MAX_DATA_POINTS :: nat where "MAX_DATA_POINTS = 60"

definition AUTO_STOP_ENABLED :: bool where "AUTO_STOP_ENABLED = False"
definition AUTO_STOP_CRITICAL_TICKS :: nat where "AUTO_STOP_CRITICAL_TICKS = 10"

definition SWITCH_BACKUP_POWER :: string where "SWITCH_BACKUP_POWER = ''switch_backup_power''"
definition INCREASE_PRESSURE :: string where "INCREASE_PRESSURE = ''increase_pressure''"
definition DECREASE_PRESSURE :: string where "DECREASE_PRESSURE = ''decrease_pressure''"
definition INCREASE_COOLING :: string where "INCREASE_COOLING = ''increase_cooling''"
definition PAUSE_LINE :: string where "PAUSE_LINE = ''pause_line''"
definition RESUME_LINE :: string where "RESUME_LINE = ''resume_line''"

section \<open>Data model of FactorySimulation\<close>

record sensor_reading =
  power :: real
  pressure :: real
  temperature :: real

text \<open>The property names by which \<^verbatim>\<open>this.sensors[sensorName]\<close> is indexed.\<close>

datatype sensor_name = Power | Pressure | Temperature

fun sensor_get :: "sensor_name \<Rightarrow> sensor_reading \<Rightarrow> real" where
  "sensor_get Power r = power r"
| "sensor_get Pressure r = pressure r"
| "sensor_get Temperature r = temperature r"

fun sensor_set :: "sensor_name \<Rightarrow> real \<Rightarrow> sensor_reading \<Rightarrow> sensor_reading" where
  "sensor_set Power v r = r\<lparr>power := v\<rparr>"
| "sensor_set Pressure v r = r\<lparr>pressure := v\<rparr>"
| "sensor_set Temperature v r = r\<lparr>temperature := v\<rparr>"

datatype sensor_status = normal | warning | critical

text \<open>
  \<^verbatim>\<open>activeScenario\<close>. The object literal written by \<^verbatim>\<open>startRandomScenario\<close> has no
  \<^verbatim>\<open>duration\<close> property, hence the option.
\<close>

record scenario =
  type :: scenario_type
  active :: bool
  scTickCount :: nat
  duration :: "nat option"

record history_entry =
  h_time :: real
  h_sensors :: sensor_reading
  h_stability :: real
  h_state :: op_state

text \<open>
  The closure of the interval callback created by \<^verbatim>\<open>gradualRestore\<close>: the captured
  constants and the mutable counter \<^verbatim>\<open>step\<close>.
\<close>

record ramp =
  sensorType :: sensor_name
  steps :: nat
  interval :: real
  step :: nat
  targetValue :: real
  stepChange :: real

text \<open>
  The callbacks the engine hands to \<^verbatim>\<open>setInterval\<close> and \<^verbatim>\<open>setTimeout\<close>: the tick,
  the delayed power restore of \<^verbatim>\<open>switchBackupPower\<close>, one ramp step of
  \<^verbatim>\<open>gradualRestore\<close>, and the delayed scenario start armed by
  \<^verbatim>\<open>endScenarioAndScheduleNext\<close>.
\<close>

datatype callback = TickCb | PowerRestoreCb | RestoreStepCb ramp | NextScenarioCb

text \<open>
  The fields of \<^verbatim>\<open>this\<close>. The last field, \<open>timers\<close>, is the host's timer table as far
  as the engine fills it: each entry is the clock reading at which it is due and its
  callback.
\<close>

record simulation =
  state :: op_state
  stability :: real
  sensors :: sensor_reading
  previousSensors :: sensor_reading
  cooling :: real
  backupPower :: bool
  mainBatteryLevel :: real
  backupBatteryLevel :: real
  batteryRechargeRate :: real
  activeScenario :: scenario
  startTime :: real
  tickCount :: nat
  criticalTickCount :: nat
  stableTickCount :: nat
  lastScenarioEndTime :: real
  scenarioScheduled :: bool
  sensorHistory :: "history_entry list"
  tickInterval :: bool
  timers :: "(real \<times> callback) list"

text \<open>
  The values \<^verbatim>\<open>Math.random()\<close> returns during one callback, one field per call site.
  Each is a number in \<open>[0, 1)\<close>.
\<close>

record draws =
  rScenario :: real
  rPowerDrop :: real
  rBatteryDrain :: real
  rPressureDrop :: real
  rTempRise :: real
  rPowerNoise :: real
  rTempNoise :: real
  rPressureNoise :: real

record result =
  success :: bool
  message :: string

section \<open>The engine\<close>

text \<open>The constructor; \<open>now\<close> is the value of \<^verbatim>\<open>Date.now()\<close>.\<close>

definition FactorySimulation :: "real \<Rightarrow> simulation" where
  "FactorySimulation now =
     \<lparr>state = NORMAL,
      stability = 100,
      sensors = \<lparr>power = 42, pressure = 140, temperature = 70\<rparr>,
      previousSensors = \<lparr>power = 42, pressure = 140, temperature = 70\<rparr>,
      cooling = COOLING_DEFAULT,
      backupPower = False,
      mainBatteryLevel = 100,
      backupBatteryLevel = 100,
      batteryRechargeRate = 2,
      activeScenario = \<lparr>type = NONE, active = False, scTickCount = 0, duration = Some 0\<rparr>,
      startTime = now,
      tickCount = 0,
      criticalTickCount = 0,
      stableTickCount = 0,
      lastScenarioEndTime = now,
      scenarioScheduled = False,
      sensorHistory = [],
      tickInterval = False,
      timers = []\<rparr>"

definition start :: "real \<Rightarrow> simulation \<Rightarrow> simulation" where
  "start now s = s\<lparr>tickInterval := True, timers := timers s @ [(now + TICK_INTERVAL, TickCb)]\<rparr>"

definition scenarios :: "scenario_type list" where
  "scenarios = [POWER_SAG, PRESSURE_DRIFT, OVERHEAT]"

text \<open>
  \<^verbatim>\<open>scenarios[Math.floor(Math.random() * scenarios.length)]\<close>; the argument \<open>r\<close> is the
  value of \<^verbatim>\<open>Math.random()\<close>, for which the index is 0, 1 or 2.
\<close>

definition startRandomScenario :: "real \<Rightarrow> simulation \<Rightarrow> simulation" where
  "startRandomScenario r s =
     (let scenario = scenarios ! nat \<lfloor>r * real (length scenarios)\<rfloor>
      in s\<lparr>activeScenario := \<lparr>type = scenario, active = True, scTickCount = 0, duration = None\<rparr>\<rparr>)"

definition manageScenarios :: "real \<Rightarrow> real \<Rightarrow> draws \<Rightarrow> simulation \<Rightarrow> simulation" where
  "manageScenarios elapsed now rnd s =
     (if elapsed < STARTUP_STABLE_DURATION then s\<lparr>stableTickCount := stableTickCount s + 1\<rparr>
      else if state s = PAUSED then s
      else if scenarioScheduled s then s
      else if \<not> active (activeScenario s) then
        (let timeSinceLastScenario = now - lastScenarioEndTime s
         in if timeSinceLastScenario \<ge> SCENARIO_DELAY then startRandomScenario (rScenario rnd) s
            else s)
      else s\<lparr>activeScenario := (activeScenario s)\<lparr>scTickCount := scTickCount (activeScenario s) + 1\<rparr>\<rparr>)"

text \<open>
  \<^verbatim>\<open>updateSensors\<close>, in the order of the source: recharge of the inactive battery and
  the perturbation of the active scenario (\<open>perturb\<close>), then ambient noise and clamping.
\<close>

definition recharge :: "simulation \<Rightarrow> simulation" where
  "recharge s =
     (if backupPower s then
        (if mainBatteryLevel s < 100
         then s\<lparr>mainBatteryLevel := min 100 (mainBatteryLevel s + batteryRechargeRate s)\<rparr> else s)
      else
        (if backupBatteryLevel s < 100
         then s\<lparr>backupBatteryLevel := min 100 (backupBatteryLevel s + batteryRechargeRate s)\<rparr> else s))"

definition powerSag :: "draws \<Rightarrow> simulation \<Rightarrow> simulation" where
  "powerSag rnd s =
     (let drop = rPowerDrop rnd * 4 + 2;
          s1 = s\<lparr>sensors := (sensors s)\<lparr>power := power (sensors s) - drop\<rparr>\<rparr>;
          batteryDrain = rBatteryDrain rnd * 8 + 5
      in if backupPower s1
         then s1\<lparr>backupBatteryLevel := max 0 (backupBatteryLevel s1 - batteryDrain)\<rparr>
         else s1\<lparr>mainBatteryLevel := max 0 (mainBatteryLevel s1 - batteryDrain)\<rparr>)"

definition pressureDrift :: "draws \<Rightarrow> simulation \<Rightarrow> simulation" where
  "pressureDrift rnd s =
     (let drop = rPressureDrop rnd * 3 + 2
      in s\<lparr>sensors := (sensors s)\<lparr>pressure := pressure (sensors s) - drop\<rparr>\<rparr>)"

definition overheat :: "draws \<Rightarrow> simulation \<Rightarrow> simulation" where
  "overheat rnd s =
     (let rise = rTempRise rnd * 2 + 2
      in s\<lparr>sensors := (sensors s)\<lparr>temperature := temperature (sensors s) + rise\<rparr>\<rparr>)"

definition noise :: "draws \<Rightarrow> sensor_reading \<Rightarrow> sensor_reading" where
  "noise rnd r =
     (let r1 = r\<lparr>power := power r + (rPowerNoise rnd - 1 / 2) * 2\<rparr>;
          r2 = r1\<lparr>temperature := temperature r1 + (rTempNoise rnd - 1 / 2) * 1\<rparr>
      in r2\<lparr>pressure := pressure r2 + (rPressureNoise rnd - 1 / 2) * 2\<rparr>)"

definition clamp :: "sensor_reading \<Rightarrow> sensor_reading" where
  "clamp r =
     \<lparr>power = max 0 (min 100 (power r)),
      pressure = max 100 (min 200 (pressure r)),
      temperature = max 20 (min 120 (temperature r))\<rparr>"

definition perturb :: "draws \<Rightarrow> simulation \<Rightarrow> simulation" where
  "perturb rnd s =
     (let scenario = (if active (activeScenario s) then Some (type (activeScenario s)) else None);
          s1 = recharge s;
          s2 = (if scenario = Some POWER_SAG then powerSag rnd s1 else s1);
          s3 = (if scenario = Some PRESSURE_DRIFT then pressureDrift rnd s2 else s2)
      in if scenario = Some OVERHEAT then overheat rnd s3 else s3)"

definition updateSensors :: "draws \<Rightarrow> simulation \<Rightarrow> simulation" where
  "updateSensors rnd s =
     (let s4 = perturb rnd s
      in s4\<lparr>sensors := clamp (noise rnd (sensors s4))\<rparr>)"

definition getSensorStatus :: "sensor_name \<Rightarrow> simulation \<Rightarrow> sensor_status" where
  "getSensorStatus sensorName s =
     (let value = sensor_get sensorName (sensors s)
      in case sensorName of
           Temperature \<Rightarrow>
             (if value \<ge> TEMPERATURE_CRITICAL_THRESHOLD then critical
              else if value \<ge> TEMPERATURE_WARNING_THRESHOLD then warning
              else normal)
         | Power \<Rightarrow>
             (if value \<le> POWER_CRITICAL_LOW then critical
              else if value \<le> POWER_WARNING_LOW then warning
              else normal)
         | Pressure \<Rightarrow>
             (if value \<le> PRESSURE_CRITICAL_LOW then critical
              else if value \<le> PRESSURE_WARNING_LOW then warning
              else normal))"

definition calculateStability :: "simulation \<Rightarrow> simulation" where
  "calculateStability s =
     (let score = 100;
          powerStatus = getSensorStatus Power s;
          pressureStatus = getSensorStatus Pressure s;
          tempStatus = getSensorStatus Temperature s;
          score = (if powerStatus = warning \<or> pressureStatus = warning \<or> tempStatus = warning
                   then score - PENALTY_WARNING else score);
          score = (if powerStatus = critical \<or> pressureStatus = critical \<or> tempStatus = critical
                   then score - PENALTY_CRITICAL else score);
          score = (if length (sensorHistory s) \<ge> 2 then
                     (let prev = h_sensors (sensorHistory s ! (length (sensorHistory s) - 1));
                          powerTrend = power (sensors s) - power prev;
                          pressureTrend = pressure (sensors s) - pressure prev;
                          tempTrend = temperature (sensors s) - temperature prev
                      in if (powerTrend < 0 \<and> power (sensors s) < POWER_NOMINAL_MIN) \<or>
                            (pressureTrend < 0 \<and> pressure (sensors s) < PRESSURE_NOMINAL_MIN) \<or>
                            (tempTrend > 0 \<and> temperature (sensors s) > TEMPERATURE_NOMINAL_MAX)
                         then score - PENALTY_TREND else score)
                   else score)
      in s\<lparr>stability := max 0 (min 100 score)\<rparr>)"

definition updateState :: "simulation \<Rightarrow> simulation" where
  "updateState s =
     (if state s = PAUSED then s
      else if stability s \<ge> THRESHOLD_NORMAL
        then s\<lparr>state := NORMAL, stableTickCount := stableTickCount s + 1\<rparr>
      else if stability s \<ge> THRESHOLD_DEGRADED
        then s\<lparr>state := DEGRADED, stableTickCount := 0\<rparr>
      else s\<lparr>state := CRITICAL, stableTickCount := 0\<rparr>)"

definition pauseLine :: "simulation \<Rightarrow> result \<times> simulation" where
  "pauseLine s =
     (let s1 = s\<lparr>state := PAUSED\<rparr>;
          s2 = s1\<lparr>activeScenario := (activeScenario s1)\<lparr>active := False\<rparr>\<rparr>
      in (\<lparr>success = True, message = ''Production line paused''\<rparr>, s2))"

definition checkAutoStop :: "simulation \<Rightarrow> simulation" where
  "checkAutoStop s =
     (if \<not> AUTO_STOP_ENABLED then s
      else if state s = CRITICAL then
        (let s1 = s\<lparr>criticalTickCount := criticalTickCount s + 1\<rparr>
         in if criticalTickCount s1 \<ge> AUTO_STOP_CRITICAL_TICKS then snd (pauseLine s1) else s1)
      else s\<lparr>criticalTickCount := 0\<rparr>)"

text \<open>
  One tick. \<open>now\<close> stands for every reading of \<^verbatim>\<open>Date.now()\<close> made during the tick;
  the telemetry event dispatched at its end leaves the engine unchanged and is left out.
\<close>

definition tick :: "real \<Rightarrow> draws \<Rightarrow> simulation \<Rightarrow> simulation" where
  "tick now rnd s =
     (let s1 = s\<lparr>tickCount := tickCount s + 1\<rparr>;
          elapsed = now - startTime s1;
          s2 = s1\<lparr>previousSensors := sensors s1\<rparr>;
          s3 = manageScenarios elapsed now rnd s2;
          s4 = updateSensors rnd s3;
          s5 = calculateStability s4;
          s6 = updateState s5;
          s7 = checkAutoStop s6;
          s8 = s7\<lparr>sensorHistory := sensorHistory s7 @
                 [\<lparr>h_time = now, h_sensors = sensors s7,
                   h_stability = stability s7, h_state = state s7\<rparr>]\<rparr>
      in if length (sensorHistory s8) > MAX_DATA_POINTS
         then s8\<lparr>sensorHistory := tl (sensorHistory s8)\<rparr> else s8)"

text \<open>
  \<^verbatim>\<open>endScenarioAndScheduleNext\<close>: the reset, then \<^verbatim>\<open>setTimeout\<close> of the next scenario
  start. \<open>nextScenario\<close> is the body of that timeout.
\<close>

definition endScenarioAndScheduleNext :: "real \<Rightarrow> simulation \<Rightarrow> simulation" where
  "endScenarioAndScheduleNext now s =
     (let delay = SCENARIO_DELAY
      in s\<lparr>activeScenario := \<lparr>type = NONE, active = False, scTickCount = 0, duration = Some 0\<rparr>,
           backupPower := False,
           cooling := COOLING_DEFAULT,
           state := NORMAL,
           stability := 100,
           stableTickCount := 0,
           criticalTickCount := 0,
           lastScenarioEndTime := now,
           mainBatteryLevel := 100,
           backupBatteryLevel := 100,
           scenarioScheduled := True,
           timers := timers s @ [(now + delay, NextScenarioCb)]\<rparr>)"

definition nextScenario :: "real \<Rightarrow> simulation \<Rightarrow> simulation" where
  "nextScenario r s = startRandomScenario r (s\<lparr>scenarioScheduled := False\<rparr>)"

definition endScenario :: "real \<Rightarrow> simulation \<Rightarrow> simulation" where
  "endScenario now s = endScenarioAndScheduleNext now s"

text \<open>
  \<^verbatim>\<open>switchBackupPower\<close> and the body of its 2000 ms timeout, \<open>powerRestore\<close>.
\<close>

definition powerRestore :: "real \<Rightarrow> simulation \<Rightarrow> simulation" where
  "powerRestore now s =
     endScenarioAndScheduleNext now (s\<lparr>sensors := (sensors s)\<lparr>power := 42\<rparr>\<rparr>)"

definition switchBackupPower :: "real \<Rightarrow> simulation \<Rightarrow> result \<times> simulation" where
  "switchBackupPower now s =
     (\<lparr>success = True, message = ''Backup power activated''\<rparr>,
      s\<lparr>backupPower := True,
        mainBatteryLevel := 100,
        timers := timers s @ [(now + 2000, PowerRestoreCb)]\<rparr>)"

text \<open>
  \<^verbatim>\<open>gradualRestore\<close> computes the closure and arms the interval; \<open>restoreStep\<close> is one
  run of the interval callback on the closure. It returns the closure with the counter
  advanced, or \<open>None\<close> once \<^verbatim>\<open>clearInterval\<close> has been called.
\<close>

definition gradualRestore :: "sensor_name \<Rightarrow> real \<Rightarrow> real \<Rightarrow> simulation \<Rightarrow> simulation" where
  "gradualRestore sensorType' duration' now s =
     (let steps' = 10;
          interval' = duration' / real steps';
          startValue = sensor_get sensorType' (sensors s);
          targetValue' = (case sensorType' of Pressure \<Rightarrow> 140 | Temperature \<Rightarrow> 70 | Power \<Rightarrow> 42);
          stepChange' = (targetValue' - startValue) / real steps'
      in s\<lparr>timers := timers s @
             [(now + interval',
               RestoreStepCb \<lparr>sensorType = sensorType', steps = steps', interval = interval',
                              step = 0, targetValue = targetValue', stepChange = stepChange'\<rparr>)]\<rparr>)"

definition restoreStep :: "real \<Rightarrow> ramp \<Rightarrow> simulation \<Rightarrow> simulation \<times> ramp option" where
  "restoreStep now c s =
     (let c1 = c\<lparr>step := step c + 1\<rparr>;
          s1 = s\<lparr>sensors := sensor_set (sensorType c1)
                  (sensor_get (sensorType c1) (sensors s) + stepChange c1) (sensors s)\<rparr>
      in if step c1 \<ge> steps c1
         then (endScenarioAndScheduleNext now
                 (s1\<lparr>sensors := sensor_set (sensorType c1) (targetValue c1) (sensors s1)\<rparr>), None)
         else (s1, Some c1))"

text \<open>The host running the interval callback \<open>n\<close> times in a row, until it is cleared.\<close>

fun restoreSteps :: "nat \<Rightarrow> real \<Rightarrow> ramp \<Rightarrow> simulation \<Rightarrow> simulation \<times> ramp option" where
  "restoreSteps 0 now c s = (s, Some c)"
| "restoreSteps (Suc n) now c s =
     (case restoreStep now c s of
        (s1, None) \<Rightarrow> (s1, None)
      | (s1, Some c1) \<Rightarrow> restoreSteps n (now + interval c) c1 s1)"

definition increasePressure :: "real \<Rightarrow> simulation \<Rightarrow> result \<times> simulation" where
  "increasePressure now s =
     (\<lparr>success = True, message = ''Increasing pressure...''\<rparr>, gradualRestore Pressure 5000 now s)"

definition decreasePressure :: "real \<Rightarrow> simulation \<Rightarrow> result \<times> simulation" where
  "decreasePressure now s =
     (\<lparr>success = True, message = ''Decreasing pressure...''\<rparr>, gradualRestore Pressure 5000 now s)"

definition increaseCooling :: "real \<Rightarrow> simulation \<Rightarrow> result \<times> simulation" where
  "increaseCooling now s =
     (\<lparr>success = True, message = ''Cooling system engaged...''\<rparr>,
      gradualRestore Temperature 10000 now s)"

fun state_name :: "op_state \<Rightarrow> string" where
  "state_name NORMAL = ''NORMAL''"
| "state_name DEGRADED = ''DEGRADED''"
| "state_name CRITICAL = ''CRITICAL''"
| "state_name PAUSED = ''PAUSED''"

definition resumeLine :: "real \<Rightarrow> simulation \<Rightarrow> result \<times> simulation" where
  "resumeLine now s =
     (if state s \<noteq> PAUSED then (\<lparr>success = False, message = ''Line is not paused''\<rparr>, s)
      else
        (let powerStatus = getSensorStatus Power s;
             pressureStatus = getSensorStatus Pressure s;
             tempStatus = getSensorStatus Temperature s
         in if powerStatus = critical \<or> pressureStatus = critical \<or> tempStatus = critical
            then (\<lparr>success = False, message = ''Cannot resume: Sensors still critical''\<rparr>, s)
            else
              (let s1 = (if stability s \<ge> THRESHOLD_NORMAL then s\<lparr>state := NORMAL\<rparr>
                         else if stability s \<ge> THRESHOLD_DEGRADED then s\<lparr>state := DEGRADED\<rparr>
                         else s\<lparr>state := CRITICAL\<rparr>);
                   s2 = s1\<lparr>stableTickCount := 0, criticalTickCount := 0,
                           lastScenarioEndTime := now\<rparr>
               in (\<lparr>success = True,
                    message = ''Production line resumed ('' @ state_name (state s2) @ '')''\<rparr>,
                   s2))))"

definition executeAction :: "string \<Rightarrow> real \<Rightarrow> simulation \<Rightarrow> result \<times> simulation" where
  "executeAction actionType now s =
     (if actionType = SWITCH_BACKUP_POWER then switchBackupPower now s
      else if actionType = INCREASE_PRESSURE then increasePressure now s
      else if actionType = DECREASE_PRESSURE then decreasePressure now s
      else if actionType = INCREASE_COOLING then increaseCooling now s
      else if actionType = PAUSE_LINE then pauseLine s
      else if actionType = RESUME_LINE then resumeLine now s
      else (\<lparr>success = False, message = ''Unknown action''\<rparr>, s))"

section \<open>The host's event queue\<close>

text \<open>
  The engine runs on a single-threaded event queue. An event is either a timer of the
  table coming due (entry \<open>i\<close> fires at clock reading \<open>now\<close>, with the random numbers its
  callback draws) or a call of \<^verbatim>\<open>executeAction\<close>. A timeout leaves the table when it
  fires; an interval is armed again one period later unless its callback cleared it.
\<close>

definition fire :: "nat \<Rightarrow> real \<Rightarrow> draws \<Rightarrow> simulation \<Rightarrow> simulation option" where
  "fire i now rnd s =
     (if i < length (timers s) \<and> fst (timers s ! i) \<le> now then
        (let due = fst (timers s ! i);
             cb = snd (timers s ! i);
             s0 = s\<lparr>timers := take i (timers s) @ drop (Suc i) (timers s)\<rparr>
         in Some (case cb of
              TickCb \<Rightarrow>
                (let s1 = tick now rnd s0
                 in s1\<lparr>timers := timers s1 @ [(due + TICK_INTERVAL, TickCb)]\<rparr>)
            | PowerRestoreCb \<Rightarrow> powerRestore now s0
            | RestoreStepCb c \<Rightarrow>
                (case restoreStep now c s0 of
                   (s1, None) \<Rightarrow> s1
                 | (s1, Some c1) \<Rightarrow>
                     s1\<lparr>timers := timers s1 @ [(due + interval c, RestoreStepCb c1)]\<rparr>)
            | NextScenarioCb \<Rightarrow> nextScenario (rScenario rnd) s0))
      else None)"

datatype event = Fire nat real draws | Action string real

fun step_event :: "event \<Rightarrow> simulation \<Rightarrow> simulation option" where
  "step_event (Fire i now rnd) s = fire i now rnd s"
| "step_event (Action a now) s = Some (snd (executeAction a now s))"

fun run :: "event list \<Rightarrow> simulation \<Rightarrow> simulation option" where
  "run [] s = Some s"
| "run (e # es) s = (case step_event e s of None \<Rightarrow> None | Some s1 \<Rightarrow> run es s1)"

section \<open>Definitions used to state the properties\<close>

text \<open>The classification of a channel value and the score, in the words of the specification.\<close>

definition classify_spec :: "sensor_name \<Rightarrow> real \<Rightarrow> sensor_status" where
  "classify_spec n v =
     (case n of
        Temperature \<Rightarrow> (if v \<ge> 85 then critical else if v \<ge> 75 then warning else normal)
      | Power \<Rightarrow> (if v \<le> 32 then critical else if v \<le> 38 then warning else normal)
      | Pressure \<Rightarrow> (if v \<le> 125 then critical else if v \<le> 135 then warning else normal))"

definition statuses_spec :: "sensor_reading \<Rightarrow> sensor_status list" where
  "statuses_spec cur = map (\<lambda>n. classify_spec n (sensor_get n cur)) [Power, Pressure, Temperature]"

definition worsening_spec :: "sensor_reading \<Rightarrow> sensor_reading \<Rightarrow> bool" where
  "worsening_spec cur prev =
     ((power cur < power prev \<and> power cur < 38) \<or>
      (pressure cur < pressure prev \<and> pressure cur < 135) \<or>
      (temperature cur > temperature prev \<and> temperature cur > 75))"

definition stability_spec :: "sensor_reading \<Rightarrow> history_entry list \<Rightarrow> real" where
  "stability_spec cur hist =
     max 0 (min 100
       (100 - (if warning \<in> set (statuses_spec cur) then 10 else 0)
            - (if critical \<in> set (statuses_spec cur) then 25 else 0)
            - (if length hist \<ge> 2 \<and> worsening_spec cur (h_sensors (last hist)) then 5 else 0)))"

text \<open>The operating state that belongs to a score.\<close>

definition state_of_score :: "real \<Rightarrow> op_state" where
  "state_of_score score =
     (if score \<ge> 86 then NORMAL else if score \<ge> 71 then DEGRADED else CRITICAL)"

text \<open>Some channel classifies critical, as \<^verbatim>\<open>resumeLine\<close> tests it.\<close>

definition anyCritical :: "simulation \<Rightarrow> bool" where
  "anyCritical s =
     (getSensorStatus Power s = critical \<or> getSensorStatus Pressure s = critical \<or>
      getSensorStatus Temperature s = critical)"

text \<open>Two paused engines: one with nominal sensors, one with power at 30 kW.\<close>

definition pausedNominal :: simulation where
  "pausedNominal = snd (pauseLine (FactorySimulation 0))"

definition pausedCold :: simulation where
  "pausedCold = pausedNominal\<lparr>sensors := \<lparr>power = 30, pressure = 140, temperature = 70\<rparr>,
     stability := 75\<rparr>"

text \<open>
  The invariant of the scenario record: an inactive scenario has kind NONE (stated as
  "active, or of kind NONE").
\<close>

definition scenario_inv :: "simulation \<Rightarrow> bool" where
  "scenario_inv s = (active (activeScenario s) \<or> type (activeScenario s) = NONE)"

text \<open>What an operator sees of the scenario machinery: state, active flag, scenario kind.\<close>

definition observe :: "simulation \<Rightarrow> op_state \<times> bool \<times> scenario_type" where
  "observe s = (state s, active (activeScenario s), type (activeScenario s))"

text \<open>
  The nominal targets of the ramp, and the two ways a ramp step writes a channel: adding
  to it and overwriting it.
\<close>

definition nominal :: "sensor_name \<Rightarrow> real" where
  "nominal n = (case n of Pressure \<Rightarrow> 140 | Temperature \<Rightarrow> 70 | Power \<Rightarrow> 42)"

definition endedScenario :: scenario where
  "endedScenario = \<lparr>type = NONE, active = False, scTickCount = 0, duration = Some 0\<rparr>"

definition bump :: "sensor_name \<Rightarrow> real \<Rightarrow> simulation \<Rightarrow> simulation" where
  "bump n d s = s\<lparr>sensors := sensor_set n (sensor_get n (sensors s) + d) (sensors s)\<rparr>"

definition settle :: "sensor_name \<Rightarrow> real \<Rightarrow> simulation \<Rightarrow> simulation" where
  "settle n v s = s\<lparr>sensors := sensor_set n v (sensors s)\<rparr>"

text \<open>
  Concrete runs. \<open>calm\<close> are random numbers with zero noise that select the first
  scenario; \<open>started\<close> is an engine constructed and started at clock reading 0. In
  \<open>pause_mid_scenario\<close> the third tick starts a scenario and the operator pauses one second
  later. In \<open>restart_while_paused\<close> the operator switches to backup power, the delayed
  restore ends the scenario and arms the next start for 13000, the operator pauses the
  line, and two ticks pass.
\<close>

definition calm :: draws where
  "calm = \<lparr>rScenario = 0, rPowerDrop = 1 / 2, rBatteryDrain = 1 / 2, rPressureDrop = 1 / 2,
            rTempRise = 1 / 2, rPowerNoise = 1 / 2, rTempNoise = 1 / 2, rPressureNoise = 1 / 2\<rparr>"

definition started :: simulation where
  "started = start 0 (FactorySimulation 0)"

definition pause_mid_scenario :: "event list" where
  "pause_mid_scenario =
     [Fire 0 6000 calm, Fire 0 12000 calm, Fire 0 18000 calm, Action PAUSE_LINE 19000]"

definition restart_while_paused :: "event list" where
  "restart_while_paused =
     [Action SWITCH_BACKUP_POWER 1000, Fire 1 3000 calm, Action PAUSE_LINE 4000,
      Fire 0 6000 calm, Fire 1 12000 calm]"



text \<open>An engine in a pressure drift at 120 bar, and the ramp \<^verbatim>\<open>gradualRestore\<close> builds for it.\<close>

definition lowPressure :: simulation where
  "lowPressure = (FactorySimulation 0)\<lparr>sensors := \<lparr>power = 42, pressure = 120, temperature = 70\<rparr>,
     activeScenario := \<lparr>type = PRESSURE_DRIFT, active = True, scTickCount = 4, duration = None\<rparr>\<rparr>"

definition lowPressureRamp :: ramp where
  "lowPressureRamp = \<lparr>sensorType = Pressure, steps = 10, interval = 500, step = 0,
     targetValue = 140, stepChange = 2\<rparr>"

section \<open>Clamping of the sensor channels\<close>

lemma clamp_bounds:
  "0 \<le> power (clamp r) \<and> power (clamp r) \<le> 100 \<and>
   100 \<le> pressure (clamp r) \<and> pressure (clamp r) \<le> 200 \<and>
   20 \<le> temperature (clamp r) \<and> temperature (clamp r) \<le> 120"
  by (simp add: clamp_def)

lemma sensors_updateSensors:
  "sensors (updateSensors rnd s) = clamp (noise rnd (sensors (perturb rnd s)))"
  by (simp add: updateSensors_def Let_def)

lemma updateSensors_bounds:
  "0 \<le> power (sensors (updateSensors rnd s)) \<and> power (sensors (updateSensors rnd s)) \<le> 100 \<and>
   100 \<le> pressure (sensors (updateSensors rnd s)) \<and> pressure (sensors (updateSensors rnd s)) \<le> 200 \<and>
   20 \<le> temperature (sensors (updateSensors rnd s)) \<and> temperature (sensors (updateSensors rnd s)) \<le> 120"
  unfolding sensors_updateSensors by (rule clamp_bounds)

lemma sensors_calculateStability: "sensors (calculateStability s) = sensors s"
  by (simp add: calculateStability_def Let_def split del: if_split)

lemma sensors_updateState: "sensors (updateState s) = sensors s"
  by (simp add: updateState_def)

lemma sensors_pauseLine: "sensors (snd (pauseLine s)) = sensors s"
  by (simp add: pauseLine_def Let_def)

lemma sensors_checkAutoStop: "sensors (checkAutoStop s) = sensors s"
  by (simp add: checkAutoStop_def Let_def sensors_pauseLine)

lemma sensors_tick:
  "sensors (tick now rnd s) =
   sensors (updateSensors rnd (manageScenarios (now - startTime s) now rnd
      (s\<lparr>tickCount := tickCount s + 1, previousSensors := sensors s\<rparr>)))"
  by (simp add: tick_def Let_def sensors_checkAutoStop sensors_updateState
      sensors_calculateStability)

text \<open>
  Claim C1. After \<^verbatim>\<open>updateSensors\<close>, and so at the end of every tick, power lies in
  \<open>[0, 100]\<close>, pressure in \<open>[100, 200]\<close> and temperature in \<open>[20, 120]\<close>, whatever the
  state before, the scenario and the random numbers drawn.
\<close>

theorem updateSensors_clamped:
  "0 \<le> power (sensors (updateSensors rnd s)) \<and> power (sensors (updateSensors rnd s)) \<le> 100 \<and>
   100 \<le> pressure (sensors (updateSensors rnd s)) \<and>
   pressure (sensors (updateSensors rnd s)) \<le> 200 \<and>
   20 \<le> temperature (sensors (updateSensors rnd s)) \<and>
   temperature (sensors (updateSensors rnd s)) \<le> 120 \<and>
   0 \<le> power (sensors (tick now rnd s)) \<and> power (sensors (tick now rnd s)) \<le> 100 \<and>
   100 \<le> pressure (sensors (tick now rnd s)) \<and> pressure (sensors (tick now rnd s)) \<le> 200 \<and>
   20 \<le> temperature (sensors (tick now rnd s)) \<and> temperature (sensors (tick now rnd s)) \<le> 120"
  unfolding sensors_tick
  using updateSensors_bounds [of rnd s]
    updateSensors_bounds [of rnd "manageScenarios (now - startTime s) now rnd
      (s\<lparr>tickCount := tickCount s + 1, previousSensors := sensors s\<rparr>)"]
  by blast

section \<open>The stability score\<close>

lemma getSensorStatus_spec:
  "getSensorStatus n s = classify_spec n (sensor_get n (sensors s))"
  by (cases n)
    (simp_all add: getSensorStatus_def classify_spec_def Let_def
      TEMPERATURE_CRITICAL_THRESHOLD_def TEMPERATURE_WARNING_THRESHOLD_def
      POWER_CRITICAL_LOW_def POWER_WARNING_LOW_def
      PRESSURE_CRITICAL_LOW_def PRESSURE_WARNING_LOW_def)

lemma score_cases:
  "max 0 (min 100
     (if T then (if C then (if W then 100 - 10 else 100) - 25
                 else (if W then 100 - 10 else 100)) - 5
      else (if C then (if W then 100 - 10 else 100) - 25
            else (if W then 100 - 10 else (100::real))))) =
   max 0 (min 100 (100 - (if W then 10 else 0) - (if C then 25 else 0) - (if T then 5 else 0)))"
  by (cases T; cases C; cases W; simp)

lemma stability_calculateStability:
  "stability (calculateStability s) = stability_spec (sensors s) (sensorHistory s)"
proof -
  let ?a = "classify_spec Power (power (sensors s))"
  let ?b = "classify_spec Pressure (pressure (sensors s))"
  let ?c = "classify_spec Temperature (temperature (sensors s))"
  let ?W = "?a = warning \<or> ?b = warning \<or> ?c = warning"
  let ?C = "?a = critical \<or> ?b = critical \<or> ?c = critical"
  let ?T = "2 \<le> length (sensorHistory s) \<and> worsening_spec (sensors s) (h_sensors (last (sensorHistory s)))"
  have W: "(warning \<in> set (statuses_spec (sensors s))) = ?W"
    by (auto simp: statuses_spec_def)
  have C: "(critical \<in> set (statuses_spec (sensors s))) = ?C"
    by (auto simp: statuses_spec_def)
  have L: "2 \<le> length (sensorHistory s) \<Longrightarrow>
      sensorHistory s ! (length (sensorHistory s) - 1) = last (sensorHistory s)"
    by (cases "sensorHistory s" rule: rev_cases) simp_all
  have lhs: "stability (calculateStability s) =
    max 0 (min 100
     (if ?T then (if ?C then (if ?W then 100 - 10 else 100) - 25
                 else (if ?W then 100 - 10 else 100)) - 5
      else (if ?C then (if ?W then 100 - 10 else 100) - 25
            else (if ?W then 100 - 10 else (100::real)))))"
  proof (cases "2 \<le> length (sensorHistory s)")
    case True
    then show ?thesis
      using L [OF True]
      by (simp add: calculateStability_def Let_def getSensorStatus_spec worsening_spec_def
          PENALTY_WARNING_def PENALTY_CRITICAL_def PENALTY_TREND_def
          POWER_NOMINAL_MIN_def PRESSURE_NOMINAL_MIN_def TEMPERATURE_NOMINAL_MAX_def
          split del: if_split cong: if_cong)
  next
    case False
    then show ?thesis
      by (simp add: calculateStability_def Let_def getSensorStatus_spec
          PENALTY_WARNING_def PENALTY_CRITICAL_def PENALTY_TREND_def
          split del: if_split cong: if_cong)
  qed
  show ?thesis
    unfolding lhs stability_spec_def W C by (rule score_cases)
qed

lemma calculateStability_only_stability:
  "calculateStability s = s\<lparr>stability := stability (calculateStability s)\<rparr>"
  by (simp add: calculateStability_def Let_def split del: if_split)

text \<open>
  Claim C2. \<^verbatim>\<open>calculateStability\<close> changes the stability score only, and the new score is
  100, minus 10 if some channel classifies warning, minus 25 if some channel classifies
  critical, minus 5 if the history has at least two entries and some channel moved further
  from nominal since the last entry, clamped to \<open>[0, 100]\<close>. The classification checks
  temperature on the high side (85, 75) and power and pressure on the low side (32, 38 and
  125, 135).
\<close>

theorem calculateStability_score:
  "calculateStability s = s\<lparr>stability := stability_spec (sensors s) (sensorHistory s)\<rparr> \<and>
   getSensorStatus n s = classify_spec n (sensor_get n (sensors s)) \<and>
   0 \<le> stability (calculateStability s) \<and> stability (calculateStability s) \<le> 100"
proof -
  have a: "calculateStability s = s\<lparr>stability := stability_spec (sensors s) (sensorHistory s)\<rparr>"
    using calculateStability_only_stability [of s]
    by (simp only: stability_calculateStability)
  have b: "0 \<le> stability_spec (sensors s) (sensorHistory s) \<and>
           stability_spec (sensors s) (sensorHistory s) \<le> 100"
    unfolding stability_spec_def by (simp split del: if_split)
  have c: "stability (calculateStability s) = stability_spec (sensors s) (sensorHistory s)"
    by (rule stability_calculateStability)
  show ?thesis
    unfolding c using a b getSensorStatus_spec [of n s] by blast
qed

section \<open>The operating state\<close>

lemma state_updateState:
  "state (updateState s) = (if state s = PAUSED then PAUSED else state_of_score (stability s))"
  by (simp add: updateState_def state_of_score_def THRESHOLD_NORMAL_def THRESHOLD_DEGRADED_def)

lemma stability_updateState: "stability (updateState s) = stability s"
  by (simp add: updateState_def)

lemma state_calculateStability: "state (calculateStability s) = state s"
  by (simp add: calculateStability_def Let_def split del: if_split)

lemma checkAutoStop_id: "checkAutoStop s = s"
  by (simp add: checkAutoStop_def AUTO_STOP_ENABLED_def)

lemma state_recharge: "state (recharge s) = state s"
  by (simp add: recharge_def)

lemma state_perturb: "state (perturb rnd s) = state s"
  by (simp add: perturb_def Let_def powerSag_def pressureDrift_def overheat_def state_recharge)

lemma state_updateSensors: "state (updateSensors rnd s) = state s"
  by (simp add: updateSensors_def Let_def state_perturb)

lemma state_startRandomScenario: "state (startRandomScenario r s) = state s"
  by (simp add: startRandomScenario_def Let_def)

lemma state_manageScenarios: "state (manageScenarios e now rnd s) = state s"
  by (simp add: manageScenarios_def Let_def state_startRandomScenario)

lemma tick_state_stability:
  "state (tick now rnd s) =
     (if state s = PAUSED then PAUSED else state_of_score (stability (tick now rnd s)))"
  by (simp add: tick_def Let_def checkAutoStop_id state_updateState stability_updateState
      state_calculateStability state_updateSensors state_manageScenarios)



section \<open>The choice of the scenario\<close>

lemma floor_thirds:
  assumes "0 \<le> r" "r < 1"
  shows "nat \<lfloor>r * 3\<rfloor> = (if r < 1 / 3 then 0 else if r < 2 / 3 then 1 else 2)"
proof -
  consider "r < 1 / 3" | "1 / 3 \<le> r \<and> r < 2 / 3" | "2 / 3 \<le> r" by linarith
  then show ?thesis
  proof cases
    case 1
    then have "\<lfloor>r * 3\<rfloor> = 0" using assms by (intro floor_unique) simp_all
    then show ?thesis using 1 by simp
  next
    case 2
    then have "\<lfloor>r * 3\<rfloor> = 1" using assms by (intro floor_unique) simp_all
    then show ?thesis using 2 by simp
  next
    case 3
    then have "\<lfloor>r * 3\<rfloor> = 2" using assms by (intro floor_unique) simp_all
    then show ?thesis using 3 by simp
  qed
qed

lemma startRandomScenario_type:
  "0 \<le> r \<Longrightarrow> r < 1 \<Longrightarrow>
   type (activeScenario (startRandomScenario r s)) =
     (if r < 1 / 3 then POWER_SAG else if r < 2 / 3 then PRESSURE_DRIFT else OVERHEAT)"
  by (simp add: startRandomScenario_def Let_def scenarios_def floor_thirds)

text \<open>
  Claim C4. The claim is that the scenario kind is drawn with the configured weights
  0.40, 0.35 and 0.25. \<^verbatim>\<open>startRandomScenario\<close> does not read the weights: for a random number
  \<open>r\<close> in \<open>[0, 1)\<close> it selects \<^verbatim>\<open>POWER_SAG\<close> exactly on \<open>[0, 1/3)\<close>, \<^verbatim>\<open>PRESSURE_DRIFT\<close> exactly on
  \<open>[1/3, 2/3)\<close> and OVERHEAT exactly on \<open>[2/3, 1)\<close>, so each kind has probability 1/3,
  while the weight configured for \<^verbatim>\<open>POWER_SAG\<close> is 2/5. At \<open>r = 7/20\<close>, below the weight of
  \<^verbatim>\<open>POWER_SAG\<close>, the code selects \<^verbatim>\<open>PRESSURE_DRIFT\<close>.
\<close>

theorem startRandomScenario_uniform:
  "{r. 0 \<le> r \<and> r < 1 \<and> type (activeScenario (startRandomScenario r s)) = POWER_SAG} = {0..<1 / 3} \<and>
   {r. 0 \<le> r \<and> r < 1 \<and> type (activeScenario (startRandomScenario r s)) = PRESSURE_DRIFT}
     = {1 / 3..<2 / 3} \<and>
   {r. 0 \<le> r \<and> r < 1 \<and> type (activeScenario (startRandomScenario r s)) = OVERHEAT} = {2 / 3..<1} \<and>
   SCENARIO_WEIGHTS POWER_SAG = 2 / 5 \<and>
   type (activeScenario (startRandomScenario (7 / 20) s)) = PRESSURE_DRIFT"
proof -
  have a: "{r. 0 \<le> r \<and> r < 1 \<and> type (activeScenario (startRandomScenario r s)) = POWER_SAG}
      = {0..<1 / 3}"
    by (auto simp: startRandomScenario_type split: if_splits)
  have b: "{r. 0 \<le> r \<and> r < 1 \<and> type (activeScenario (startRandomScenario r s)) = PRESSURE_DRIFT}
      = {1 / 3..<2 / 3}"
    by (auto simp: startRandomScenario_type split: if_splits)
  have c: "{r. 0 \<le> r \<and> r < 1 \<and> type (activeScenario (startRandomScenario r s)) = OVERHEAT}
      = {2 / 3..<1}"
    by (auto simp: startRandomScenario_type split: if_splits)
  have d: "type (activeScenario (startRandomScenario (7 / 20) s)) = PRESSURE_DRIFT"
    by (simp add: startRandomScenario_type)
  show ?thesis using a b c d by simp
qed

section \<open>Resuming the line\<close>

lemma executeAction_resume: "executeAction RESUME_LINE now s = resumeLine now s"
  by (simp add: executeAction_def RESUME_LINE_def SWITCH_BACKUP_POWER_def INCREASE_PRESSURE_def
      DECREASE_PRESSURE_def INCREASE_COOLING_def PAUSE_LINE_def)

lemma resumeLine_success:
  "state s = PAUSED \<Longrightarrow> \<not> anyCritical s \<Longrightarrow>
   resumeLine now s =
     (\<lparr>success = True,
       message = ''Production line resumed ('' @ state_name (state_of_score (stability s)) @ '')''\<rparr>,
      s\<lparr>state := state_of_score (stability s), stableTickCount := 0, criticalTickCount := 0,
        lastScenarioEndTime := now\<rparr>)"
  by (simp add: resumeLine_def anyCritical_def Let_def state_of_score_def
      THRESHOLD_NORMAL_def THRESHOLD_DEGRADED_def)

text \<open>
  Claim C6. \<^verbatim>\<open>resume_line\<close> fails with "Line is not paused" when the state is not PAUSED,
  and with "Cannot resume: Sensors still critical" when the state is PAUSED and some
  channel classifies critical; in both cases the engine is left as it was. Otherwise it
  succeeds, sets the state from the current stability score and resets the stable and
  critical tick counters and \<^verbatim>\<open>lastScenarioEndTime\<close>.
\<close>

theorem resumeLine_contract:
  "(state s \<noteq> PAUSED \<longrightarrow>
      executeAction RESUME_LINE now s = (\<lparr>success = False, message = ''Line is not paused''\<rparr>, s)) \<and>
   (state s = PAUSED \<and> anyCritical s \<longrightarrow>
      executeAction RESUME_LINE now s =
        (\<lparr>success = False, message = ''Cannot resume: Sensors still critical''\<rparr>, s)) \<and>
   (state s = PAUSED \<and> \<not> anyCritical s \<longrightarrow>
      success (fst (executeAction RESUME_LINE now s)) \<and>
      snd (executeAction RESUME_LINE now s) =
        s\<lparr>state := state_of_score (stability s), stableTickCount := 0, criticalTickCount := 0,
          lastScenarioEndTime := now\<rparr>)"
proof (intro conjI impI)
  assume "state s \<noteq> PAUSED"
  then show "executeAction RESUME_LINE now s =
      (\<lparr>success = False, message = ''Line is not paused''\<rparr>, s)"
    by (simp add: executeAction_resume resumeLine_def)
next
  assume "state s = PAUSED \<and> anyCritical s"
  then show "executeAction RESUME_LINE now s =
      (\<lparr>success = False, message = ''Cannot resume: Sensors still critical''\<rparr>, s)"
    by (simp add: executeAction_resume resumeLine_def anyCritical_def Let_def)
next
  assume a: "state s = PAUSED \<and> \<not> anyCritical s"
  then show "success (fst (executeAction RESUME_LINE now s))"
    by (simp add: executeAction_resume resumeLine_success)
  from a show "snd (executeAction RESUME_LINE now s) =
        s\<lparr>state := state_of_score (stability s), stableTickCount := 0, criticalTickCount := 0,
          lastScenarioEndTime := now\<rparr>"
    by (simp add: executeAction_resume resumeLine_success)
qed

lemma anyCritical_pausedNominal: "\<not> anyCritical pausedNominal"
  by (simp add: anyCritical_def getSensorStatus_def pausedNominal_def pauseLine_def
      FactorySimulation_def Let_def POWER_CRITICAL_LOW_def PRESSURE_CRITICAL_LOW_def
      TEMPERATURE_CRITICAL_THRESHOLD_def)

lemma anyCritical_pausedCold: "anyCritical pausedCold"
  by (simp add: anyCritical_def getSensorStatus_def pausedCold_def Let_def POWER_CRITICAL_LOW_def)

lemma state_pausedNominal: "state pausedNominal = PAUSED"
  by (simp add: pausedNominal_def pauseLine_def Let_def)

lemma state_pausedCold: "state pausedCold = PAUSED"
  by (simp add: pausedCold_def state_pausedNominal)

theorem resumeLine_contract_witness:
  "state (FactorySimulation 0) \<noteq> PAUSED \<and>
   fst (executeAction RESUME_LINE 5 (FactorySimulation 0)) =
     \<lparr>success = False, message = ''Line is not paused''\<rparr> \<and>
   state pausedCold = PAUSED \<and> anyCritical pausedCold \<and>
   executeAction RESUME_LINE 5 pausedCold =
     (\<lparr>success = False, message = ''Cannot resume: Sensors still critical''\<rparr>, pausedCold) \<and>
   state pausedNominal = PAUSED \<and> \<not> anyCritical pausedNominal \<and>
   state (snd (executeAction RESUME_LINE 5 pausedNominal)) = NORMAL \<and>
   lastScenarioEndTime (snd (executeAction RESUME_LINE 5 pausedNominal)) = 5"
  using resumeLine_contract [of "FactorySimulation 0" 5]
    resumeLine_contract [of pausedCold 5]
    resumeLine_contract [of pausedNominal 5]
    anyCritical_pausedNominal anyCritical_pausedCold state_pausedNominal state_pausedCold
  by (simp add: FactorySimulation_def)
    (simp add: pausedNominal_def pauseLine_def Let_def FactorySimulation_def state_of_score_def)

section \<open>Backup power\<close>

lemma executeAction_switch: "executeAction SWITCH_BACKUP_POWER now s = switchBackupPower now s"
  by (simp add: executeAction_def)

lemma activeScenario_endScenarioAndScheduleNext:
  "activeScenario (endScenarioAndScheduleNext now s) =
     \<lparr>type = NONE, active = False, scTickCount = 0, duration = Some 0\<rparr>"
  by (simp add: endScenarioAndScheduleNext_def Let_def)

lemma sensors_endScenarioAndScheduleNext:
  "sensors (endScenarioAndScheduleNext now s) = sensors s"
  by (simp add: endScenarioAndScheduleNext_def Let_def)

lemma fire_last:
  "fire (length ts) t rnd (s\<lparr>timers := ts @ [(due, cb)]\<rparr>) =
     (if due \<le> t then
        Some (case cb of
              TickCb \<Rightarrow>
                (let s1 = tick t rnd (s\<lparr>timers := ts\<rparr>)
                 in s1\<lparr>timers := timers s1 @ [(due + TICK_INTERVAL, TickCb)]\<rparr>)
            | PowerRestoreCb \<Rightarrow> powerRestore t (s\<lparr>timers := ts\<rparr>)
            | RestoreStepCb c \<Rightarrow>
                (case restoreStep t c (s\<lparr>timers := ts\<rparr>) of
                   (s1, None) \<Rightarrow> s1
                 | (s1, Some c1) \<Rightarrow>
                     s1\<lparr>timers := timers s1 @ [(due + interval c, RestoreStepCb c1)]\<rparr>)
            | NextScenarioCb \<Rightarrow> nextScenario (rScenario rnd) (s\<lparr>timers := ts\<rparr>))
      else None)"
  by (simp add: fire_def Let_def)

text \<open>
  Claim C8. \<^verbatim>\<open>switch_backup_power\<close> returns success, sets the backup-power flag and the
  main battery level to 100, and arms a timeout due 2000 ms later; that timeout, when it
  fires, sets power to 42 and ends the scenario.
\<close>

theorem switchBackupPower_contract:
  "fst (executeAction SWITCH_BACKUP_POWER now s) =
     \<lparr>success = True, message = ''Backup power activated''\<rparr> \<and>
   snd (executeAction SWITCH_BACKUP_POWER now s) =
     s\<lparr>backupPower := True, mainBatteryLevel := 100,
       timers := timers s @ [(now + 2000, PowerRestoreCb)]\<rparr> \<and>
   fire (length (timers s)) t rnd (snd (executeAction SWITCH_BACKUP_POWER now s)) =
     (if now + 2000 \<le> t
      then Some (powerRestore t (s\<lparr>backupPower := True, mainBatteryLevel := 100\<rparr>))
      else None) \<and>
   power (sensors (powerRestore t s')) = 42 \<and>
   activeScenario (powerRestore t s') =
     \<lparr>type = NONE, active = False, scTickCount = 0, duration = Some 0\<rparr>"
proof -
  have a: "snd (executeAction SWITCH_BACKUP_POWER now s) =
     s\<lparr>backupPower := True, mainBatteryLevel := 100,
       timers := timers s @ [(now + 2000, PowerRestoreCb)]\<rparr>"
    by (simp add: executeAction_switch switchBackupPower_def)
  have b: "fire (length (timers s)) t rnd (snd (executeAction SWITCH_BACKUP_POWER now s)) =
     (if now + 2000 \<le> t
      then Some (powerRestore t (s\<lparr>backupPower := True, mainBatteryLevel := 100\<rparr>))
      else None)"
    unfolding a
    using fire_last [where ts = "timers s" and t = t and rnd = rnd
        and s = "s\<lparr>backupPower := True, mainBatteryLevel := 100\<rparr>"
        and due = "now + 2000" and cb = PowerRestoreCb]
    by simp
  have c: "power (sensors (powerRestore t s')) = 42"
    by (simp add: powerRestore_def sensors_endScenarioAndScheduleNext)
  have d: "activeScenario (powerRestore t s') =
     \<lparr>type = NONE, active = False, scTickCount = 0, duration = Some 0\<rparr>"
    by (simp add: powerRestore_def activeScenario_endScenarioAndScheduleNext)
  have e: "fst (executeAction SWITCH_BACKUP_POWER now s) =
     \<lparr>success = True, message = ''Backup power activated''\<rparr>"
    by (simp add: executeAction_switch switchBackupPower_def)
  show ?thesis using a b c d e by blast
qed

section \<open>Pausing the line\<close>

lemma executeAction_pause: "executeAction PAUSE_LINE now s = pauseLine s"
  by (simp add: executeAction_def RESUME_LINE_def SWITCH_BACKUP_POWER_def INCREASE_PRESSURE_def
      DECREASE_PRESSURE_def INCREASE_COOLING_def PAUSE_LINE_def)

text \<open>
  Claim C10. \<^verbatim>\<open>pause_line\<close> sets the state to PAUSED and \<^verbatim>\<open>activeScenario.active\<close> to
  false and changes nothing else: the sensors, the battery levels, the cooling level, the
  backup-power flag, the scenario kind, the stability score, the counters and the history
  are as before.
\<close>

theorem pauseLine_frame:
  "fst (executeAction PAUSE_LINE now s) =
     \<lparr>success = True, message = ''Production line paused''\<rparr> \<and>
   snd (executeAction PAUSE_LINE now s) =
     s\<lparr>state := PAUSED, activeScenario := (activeScenario s)\<lparr>active := False\<rparr>\<rparr> \<and>
   state (snd (executeAction PAUSE_LINE now s)) = PAUSED \<and>
   active (activeScenario (snd (executeAction PAUSE_LINE now s))) = False \<and>
   type (activeScenario (snd (executeAction PAUSE_LINE now s))) = type (activeScenario s) \<and>
   scTickCount (activeScenario (snd (executeAction PAUSE_LINE now s))) =
     scTickCount (activeScenario s) \<and>
   duration (activeScenario (snd (executeAction PAUSE_LINE now s))) = duration (activeScenario s) \<and>
   sensors (snd (executeAction PAUSE_LINE now s)) = sensors s \<and>
   previousSensors (snd (executeAction PAUSE_LINE now s)) = previousSensors s \<and>
   mainBatteryLevel (snd (executeAction PAUSE_LINE now s)) = mainBatteryLevel s \<and>
   backupBatteryLevel (snd (executeAction PAUSE_LINE now s)) = backupBatteryLevel s \<and>
   cooling (snd (executeAction PAUSE_LINE now s)) = cooling s \<and>
   backupPower (snd (executeAction PAUSE_LINE now s)) = backupPower s \<and>
   stability (snd (executeAction PAUSE_LINE now s)) = stability s \<and>
   tickCount (snd (executeAction PAUSE_LINE now s)) = tickCount s \<and>
   criticalTickCount (snd (executeAction PAUSE_LINE now s)) = criticalTickCount s \<and>
   stableTickCount (snd (executeAction PAUSE_LINE now s)) = stableTickCount s \<and>
   lastScenarioEndTime (snd (executeAction PAUSE_LINE now s)) = lastScenarioEndTime s \<and>
   scenarioScheduled (snd (executeAction PAUSE_LINE now s)) = scenarioScheduled s \<and>
   sensorHistory (snd (executeAction PAUSE_LINE now s)) = sensorHistory s \<and>
   timers (snd (executeAction PAUSE_LINE now s)) = timers s"
  by (simp add: executeAction_pause pauseLine_def Let_def)

section \<open>What a tick leaves alone\<close>

lemma recharge_frame:
  "activeScenario (recharge s) = activeScenario s \<and> timers (recharge s) = timers s \<and>
   startTime (recharge s) = startTime s \<and> scenarioScheduled (recharge s) = scenarioScheduled s \<and>
   lastScenarioEndTime (recharge s) = lastScenarioEndTime s"
  by (simp add: recharge_def)

lemma perturb_frame:
  "activeScenario (perturb rnd s) = activeScenario s \<and> timers (perturb rnd s) = timers s \<and>
   startTime (perturb rnd s) = startTime s \<and>
   scenarioScheduled (perturb rnd s) = scenarioScheduled s \<and>
   lastScenarioEndTime (perturb rnd s) = lastScenarioEndTime s"
  by (simp add: perturb_def Let_def powerSag_def pressureDrift_def overheat_def recharge_frame)

lemma updateSensors_frame:
  "activeScenario (updateSensors rnd s) = activeScenario s \<and>
   timers (updateSensors rnd s) = timers s \<and>
   startTime (updateSensors rnd s) = startTime s \<and>
   scenarioScheduled (updateSensors rnd s) = scenarioScheduled s \<and>
   lastScenarioEndTime (updateSensors rnd s) = lastScenarioEndTime s"
  by (simp add: updateSensors_def Let_def perturb_frame)

lemma calculateStability_frame:
  "activeScenario (calculateStability s) = activeScenario s \<and>
   timers (calculateStability s) = timers s \<and>
   startTime (calculateStability s) = startTime s \<and>
   scenarioScheduled (calculateStability s) = scenarioScheduled s \<and>
   lastScenarioEndTime (calculateStability s) = lastScenarioEndTime s"
  by (simp add: calculateStability_def Let_def split del: if_split)

lemma updateState_frame:
  "activeScenario (updateState s) = activeScenario s \<and>
   timers (updateState s) = timers s \<and>
   startTime (updateState s) = startTime s \<and>
   scenarioScheduled (updateState s) = scenarioScheduled s \<and>
   lastScenarioEndTime (updateState s) = lastScenarioEndTime s"
  by (simp add: updateState_def)

lemma startRandomScenario_frame:
  "timers (startRandomScenario r s) = timers s \<and>
   state (startRandomScenario r s) = state s \<and>
   startTime (startRandomScenario r s) = startTime s \<and>
   scenarioScheduled (startRandomScenario r s) = scenarioScheduled s \<and>
   lastScenarioEndTime (startRandomScenario r s) = lastScenarioEndTime s \<and>
   active (activeScenario (startRandomScenario r s))"
  by (simp add: startRandomScenario_def Let_def)

lemma manageScenarios_frame:
  "timers (manageScenarios e now rnd s) = timers s \<and>
   startTime (manageScenarios e now rnd s) = startTime s \<and>
   scenarioScheduled (manageScenarios e now rnd s) = scenarioScheduled s \<and>
   lastScenarioEndTime (manageScenarios e now rnd s) = lastScenarioEndTime s"
  by (simp add: manageScenarios_def Let_def startRandomScenario_frame)

lemma tick_frame:
  "timers (tick now rnd s) = timers s \<and>
   startTime (tick now rnd s) = startTime s \<and>
   scenarioScheduled (tick now rnd s) = scenarioScheduled s \<and>
   lastScenarioEndTime (tick now rnd s) = lastScenarioEndTime s"
  by (simp add: tick_def Let_def checkAutoStop_id updateState_frame calculateStability_frame
      updateSensors_frame manageScenarios_frame)

lemma manageScenarios_activeScenario:
  "activeScenario (manageScenarios e now rnd s) =
     (if e < STARTUP_STABLE_DURATION \<or> state s = PAUSED \<or> scenarioScheduled s
      then activeScenario s
      else if \<not> active (activeScenario s) then
        (if now - lastScenarioEndTime s \<ge> SCENARIO_DELAY
         then activeScenario (startRandomScenario (rScenario rnd) s) else activeScenario s)
      else (activeScenario s)\<lparr>scTickCount := scTickCount (activeScenario s) + 1\<rparr>)"
  by (simp add: manageScenarios_def Let_def)

lemma startRandomScenario_activeScenario:
  "activeScenario (startRandomScenario r s) =
     \<lparr>type = scenarios ! nat \<lfloor>r * real (length scenarios)\<rfloor>, active = True,
      scTickCount = 0, duration = None\<rparr>"
  by (simp add: startRandomScenario_def Let_def)

lemma tick_activeScenario:
  "activeScenario (tick now rnd s) =
     (if now - startTime s < STARTUP_STABLE_DURATION \<or> state s = PAUSED \<or> scenarioScheduled s
      then activeScenario s
      else if \<not> active (activeScenario s) then
        (if now - lastScenarioEndTime s \<ge> SCENARIO_DELAY
         then \<lparr>type = scenarios ! nat \<lfloor>rScenario rnd * real (length scenarios)\<rfloor>,
               active = True, scTickCount = 0, duration = None\<rparr>
         else activeScenario s)
      else (activeScenario s)\<lparr>scTickCount := scTickCount (activeScenario s) + 1\<rparr>)"
  by (simp add: tick_def Let_def checkAutoStop_id updateState_frame calculateStability_frame
      updateSensors_frame manageScenarios_activeScenario startRandomScenario_activeScenario)

lemma tick_state_paused: "state s = PAUSED \<Longrightarrow> state (tick now rnd s) = PAUSED"
  by (simp add: tick_state_stability)

lemma tick_state_running: "state s \<noteq> PAUSED \<Longrightarrow> state (tick now rnd s) \<noteq> PAUSED"
  by (simp add: tick_state_stability state_of_score_def)

lemma endScenarioAndScheduleNext_frame:
  "state (endScenarioAndScheduleNext now s) = NORMAL \<and>
   timers (endScenarioAndScheduleNext now s) = timers s @ [(now + 10000, NextScenarioCb)] \<and>
   startTime (endScenarioAndScheduleNext now s) = startTime s \<and>
   scenarioScheduled (endScenarioAndScheduleNext now s) \<and>
   lastScenarioEndTime (endScenarioAndScheduleNext now s) = now"
  by (simp add: endScenarioAndScheduleNext_def Let_def SCENARIO_DELAY_def)

lemma run_append:
  "run (es @ fs) s = (case run es s of None \<Rightarrow> None | Some s1 \<Rightarrow> run fs s1)"
  by (induction es arbitrary: s) (auto split: option.splits)

lemma fire_tick_head:
  assumes "timers s = (due, TickCb) # ts" and "due \<le> now"
  shows "fire 0 now rnd s =
     Some ((tick now rnd (s\<lparr>timers := ts\<rparr>))\<lparr>timers := ts @ [(due + 6000, TickCb)]\<rparr>)"
  using assms by (simp add: fire_def Let_def tick_frame TICK_INTERVAL_def)

section \<open>The invariant of the scenario record\<close>

lemma scenario_inv_timers: "scenario_inv (s\<lparr>timers := ts\<rparr>) = scenario_inv s"
  by (simp add: scenario_inv_def)

lemma scenario_inv_tick: "scenario_inv s \<Longrightarrow> scenario_inv (tick now rnd s)"
  by (auto simp: scenario_inv_def tick_activeScenario)

lemma scenario_inv_startRandomScenario: "scenario_inv (startRandomScenario r s)"
  by (simp add: scenario_inv_def startRandomScenario_activeScenario)

lemma scenario_inv_endScenarioAndScheduleNext: "scenario_inv (endScenarioAndScheduleNext now s)"
  by (simp add: scenario_inv_def activeScenario_endScenarioAndScheduleNext)

lemma scenario_inv_restoreStep: "scenario_inv s \<Longrightarrow> scenario_inv (fst (restoreStep now c s))"
  by (simp add: restoreStep_def Let_def scenario_inv_endScenarioAndScheduleNext)
    (simp add: scenario_inv_def)

lemma gradualRestore_activeScenario:
  "activeScenario (gradualRestore n d now s) = activeScenario s"
  by (simp add: gradualRestore_def Let_def)

lemma resumeLine_activeScenario: "activeScenario (snd (resumeLine now s)) = activeScenario s"
  by (simp add: resumeLine_def Let_def)

lemma executeAction_activeScenario:
  "a \<noteq> PAUSE_LINE \<Longrightarrow> activeScenario (snd (executeAction a now s)) = activeScenario s"
  by (simp add: executeAction_def switchBackupPower_def increasePressure_def
      decreasePressure_def increaseCooling_def gradualRestore_activeScenario
      resumeLine_activeScenario)

lemma scenario_inv_fire:
  assumes "scenario_inv s" and "fire i now rnd s = Some s'"
  shows "scenario_inv s'"
proof -
  let ?s0 = "s\<lparr>timers := take i (timers s) @ drop (Suc i) (timers s)\<rparr>"
  have inv0: "scenario_inv ?s0" using assms(1) by (simp add: scenario_inv_timers)
  show ?thesis
  proof (cases "snd (timers s ! i)")
    case TickCb
    then show ?thesis
      using assms(2) scenario_inv_tick [OF inv0, of now rnd]
      by (auto simp: fire_def Let_def scenario_inv_timers split: if_splits)
  next
    case PowerRestoreCb
    then show ?thesis
      using assms(2)
      by (auto simp: fire_def Let_def powerRestore_def scenario_inv_endScenarioAndScheduleNext
          split: if_splits)
  next
    case (RestoreStepCb c)
    then show ?thesis
      using assms(2) scenario_inv_restoreStep [OF inv0, of now c]
      by (auto simp: fire_def Let_def scenario_inv_timers split: if_splits prod.splits option.splits)
  next
    case NextScenarioCb
    then show ?thesis
      using assms(2)
      by (auto simp: fire_def Let_def nextScenario_def scenario_inv_startRandomScenario
          split: if_splits)
  qed
qed

text \<open>
  Claim C5, as amended. The invariant "an inactive scenario has kind NONE" holds after the
  constructor and is preserved by every event other than \<^verbatim>\<open>pause_line\<close>: a tick, a timer
  callback (delayed power restore, ramp step, delayed scenario start) and the five other
  actions, as well as by scenario start and scenario end. \<^verbatim>\<open>pause_line\<close> sets the active
  flag to false and keeps the rest of the scenario record, its kind included.
\<close>

theorem scenario_inv_preserved:
  "scenario_inv (FactorySimulation now) \<and>
   (scenario_inv s \<and> step_event e s = Some s' \<and> (\<forall>t. e \<noteq> Action PAUSE_LINE t)
      \<longrightarrow> scenario_inv s') \<and>
   (scenario_inv s \<longrightarrow> scenario_inv (tick now rnd s)) \<and>
   scenario_inv (startRandomScenario r s) \<and>
   scenario_inv (endScenarioAndScheduleNext now s) \<and>
   activeScenario (snd (executeAction PAUSE_LINE now s)) = (activeScenario s)\<lparr>active := False\<rparr>"
proof -
  have a: "scenario_inv (FactorySimulation now)"
    by (simp add: scenario_inv_def FactorySimulation_def)
  have b: "scenario_inv s'"
    if "scenario_inv s" "step_event e s = Some s'" "\<forall>t. e \<noteq> Action PAUSE_LINE t"
  proof (cases e)
    case (Fire i t d)
    then show ?thesis using that scenario_inv_fire [of s i t d s'] by simp
  next
    case (Action n t)
    then have "n \<noteq> PAUSE_LINE" using that(3) by simp
    then show ?thesis
      using that(1,2) Action executeAction_activeScenario [of n t s]
      by (auto simp: scenario_inv_def)
  qed
  have c: "activeScenario (snd (executeAction PAUSE_LINE now s)) =
      (activeScenario s)\<lparr>active := False\<rparr>"
    by (simp add: executeAction_pause pauseLine_def Let_def)
  show ?thesis
    using a b c scenario_inv_tick [of s now rnd] scenario_inv_startRandomScenario [of r s]
      scenario_inv_endScenarioAndScheduleNext [of now s]
    by blast
qed

text \<open>The amended claim at the constructed engine, for the backup-power action and a tick.\<close>

theorem scenario_inv_preserved_witness:
  "scenario_inv (FactorySimulation 0) \<and>
   step_event (Action SWITCH_BACKUP_POWER 1000) (FactorySimulation 0) =
     Some (snd (executeAction SWITCH_BACKUP_POWER 1000 (FactorySimulation 0))) \<and>
   (\<forall>t. Action SWITCH_BACKUP_POWER 1000 \<noteq> Action PAUSE_LINE t) \<and>
   scenario_inv (snd (executeAction SWITCH_BACKUP_POWER 1000 (FactorySimulation 0))) \<and>
   scenario_inv (tick 0 calm (FactorySimulation 0))"
proof -
  have a: "\<forall>t. Action SWITCH_BACKUP_POWER 1000 \<noteq> Action PAUSE_LINE t"
    by (simp add: SWITCH_BACKUP_POWER_def PAUSE_LINE_def)
  show ?thesis
    using a scenario_inv_preserved [where now = 0 and s = "FactorySimulation 0"
        and e = "Action SWITCH_BACKUP_POWER 1000"
        and s' = "snd (executeAction SWITCH_BACKUP_POWER 1000 (FactorySimulation 0))"
        and rnd = calm]
    by simp
qed

lemma pause_mid_scenario_run:
  "\<exists>s4. run pause_mid_scenario started = Some s4 \<and> observe s4 = (PAUSED, False, POWER_SAG)"
proof -
  define s1 where "s1 = (tick 6000 calm (started\<lparr>timers := []\<rparr>))\<lparr>timers := [(12000, TickCb)]\<rparr>"
  define s2 where "s2 = (tick 12000 calm (s1\<lparr>timers := []\<rparr>))\<lparr>timers := [(18000, TickCb)]\<rparr>"
  define s3 where "s3 = (tick 18000 calm (s2\<lparr>timers := []\<rparr>))\<lparr>timers := [(24000, TickCb)]\<rparr>"
  define s4 where "s4 = snd (pauseLine s3)"
  have t0: "timers started = [(6000, TickCb)]"
    by (simp add: started_def start_def FactorySimulation_def TICK_INTERVAL_def)
  have f0: "state started = NORMAL \<and> startTime started = 0 \<and> \<not> scenarioScheduled started \<and>
      lastScenarioEndTime started = 0 \<and>
      activeScenario started = \<lparr>type = NONE, active = False, scTickCount = 0, duration = Some 0\<rparr>"
    by (simp add: started_def start_def FactorySimulation_def)
  have r1: "fire 0 6000 calm started = Some s1"
    using fire_tick_head [OF t0, of 6000 calm] by (simp add: s1_def)
  have f1: "state s1 \<noteq> PAUSED \<and> startTime s1 = 0 \<and> \<not> scenarioScheduled s1 \<and>
      lastScenarioEndTime s1 = 0 \<and>
      activeScenario s1 = \<lparr>type = NONE, active = False, scTickCount = 0, duration = Some 0\<rparr>"
    using f0 tick_state_running [of "started\<lparr>timers := []\<rparr>" 6000 calm]
    by (simp add: s1_def tick_frame tick_activeScenario STARTUP_STABLE_DURATION_def)
  have r2: "fire 0 12000 calm s1 = Some s2"
    using fire_tick_head [of s1 12000 "[]" 12000 calm] by (simp add: s1_def s2_def)
  have f2: "state s2 \<noteq> PAUSED \<and> startTime s2 = 0 \<and> \<not> scenarioScheduled s2 \<and>
      lastScenarioEndTime s2 = 0 \<and>
      activeScenario s2 = \<lparr>type = NONE, active = False, scTickCount = 0, duration = Some 0\<rparr>"
    using f1 tick_state_running [of "s1\<lparr>timers := []\<rparr>" 12000 calm]
    by (simp add: s2_def tick_frame tick_activeScenario STARTUP_STABLE_DURATION_def)
  have r3: "fire 0 18000 calm s2 = Some s3"
    using fire_tick_head [of s2 18000 "[]" 18000 calm] by (simp add: s2_def s3_def)
  have f3: "activeScenario s3 =
      \<lparr>type = POWER_SAG, active = True, scTickCount = 0, duration = None\<rparr>"
    using f2
    by (simp add: s3_def tick_frame tick_activeScenario STARTUP_STABLE_DURATION_def
        SCENARIO_DELAY_def calm_def scenarios_def)
  have r4: "step_event (Action PAUSE_LINE 19000) s3 = Some s4"
    by (simp add: s4_def executeAction_pause)
  have f4: "observe s4 = (PAUSED, False, POWER_SAG)"
    using f3 by (simp add: s4_def observe_def pauseLine_def Let_def)
  have "run pause_mid_scenario started = Some s4"
    using r1 r2 r3 r4 by (simp add: pause_mid_scenario_def)
  then show ?thesis using f4 by blast
qed

text \<open>
  Claim C5 as stated fails: after three ticks the scenario \<^verbatim>\<open>POWER_SAG\<close> is active, and
  \<^verbatim>\<open>pause_line\<close> leaves the record inactive with kind \<^verbatim>\<open>POWER_SAG\<close>.
\<close>

theorem pauseLine_breaks_scenario_inv:
  "map_option scenario_inv (run pause_mid_scenario started) = Some False"
proof -
  obtain s4 where "run pause_mid_scenario started = Some s4"
    and "observe s4 = (PAUSED, False, POWER_SAG)"
    using pause_mid_scenario_run by blast
  then show ?thesis by (simp add: observe_def scenario_inv_def)
qed

section \<open>Scenario starts while the line is paused\<close>

lemma restart_while_paused_run:
  "\<exists>s5. run restart_while_paused started = Some s5 \<and> observe s5 = (PAUSED, False, NONE) \<and>
     timers s5 = [(13000, NextScenarioCb), (18000, TickCb)]"
proof -
  define s1 where "s1 = snd (switchBackupPower 1000 started)"
  define s2 where "s2 = powerRestore 3000 (s1\<lparr>timers := [(6000, TickCb)]\<rparr>)"
  define s3 where "s3 = snd (pauseLine s2)"
  define s4 where "s4 = (tick 6000 calm (s3\<lparr>timers := [(13000, NextScenarioCb)]\<rparr>))
      \<lparr>timers := [(13000, NextScenarioCb), (12000, TickCb)]\<rparr>"
  define s5 where "s5 = (tick 12000 calm (s4\<lparr>timers := [(13000, NextScenarioCb)]\<rparr>))
      \<lparr>timers := [(13000, NextScenarioCb), (18000, TickCb)]\<rparr>"
  have t0: "timers started = [(6000, TickCb)]"
    by (simp add: started_def start_def FactorySimulation_def TICK_INTERVAL_def)
  have r1: "step_event (Action SWITCH_BACKUP_POWER 1000) started = Some s1"
    by (simp add: s1_def executeAction_switch)
  have t1: "timers s1 = [(6000, TickCb), (3000, PowerRestoreCb)]"
    by (simp add: s1_def switchBackupPower_def t0)
  have r2: "fire 1 3000 calm s1 = Some s2"
    by (simp add: fire_def Let_def t1 s2_def)
  have t2: "timers s2 = [(6000, TickCb), (13000, NextScenarioCb)]"
    by (simp add: s2_def powerRestore_def endScenarioAndScheduleNext_frame)
  have f2: "activeScenario s2 = \<lparr>type = NONE, active = False, scTickCount = 0, duration = Some 0\<rparr>"
    by (simp add: s2_def powerRestore_def activeScenario_endScenarioAndScheduleNext)
  have r3: "step_event (Action PAUSE_LINE 4000) s2 = Some s3"
    by (simp add: s3_def executeAction_pause)
  have f3: "state s3 = PAUSED \<and> timers s3 = [(6000, TickCb), (13000, NextScenarioCb)] \<and>
      activeScenario s3 = \<lparr>type = NONE, active = False, scTickCount = 0, duration = Some 0\<rparr>"
    using t2 f2 by (simp add: s3_def pauseLine_def Let_def)
  have r4: "fire 0 6000 calm s3 = Some s4"
    using f3 fire_tick_head [of s3 6000 "[(13000, NextScenarioCb)]" 6000 calm]
    by (simp add: s4_def)
  have f4: "state s4 = PAUSED \<and>
      activeScenario s4 = \<lparr>type = NONE, active = False, scTickCount = 0, duration = Some 0\<rparr>"
    using f3 by (simp add: s4_def tick_state_paused tick_activeScenario)
  have r5: "fire 1 12000 calm s4 = Some s5"
    by (simp add: fire_def Let_def s4_def s5_def tick_frame TICK_INTERVAL_def)
  have f5: "state s5 = PAUSED \<and>
      activeScenario s5 = \<lparr>type = NONE, active = False, scTickCount = 0, duration = Some 0\<rparr>"
    using f4 by (simp add: s5_def tick_state_paused tick_activeScenario)
  have "run restart_while_paused started = Some s5"
    using r1 r2 r3 r4 r5 by (simp add: restart_while_paused_def)
  moreover have "observe s5 = (PAUSED, False, NONE)"
    using f5 by (simp add: observe_def)
  moreover have "timers s5 = [(13000, NextScenarioCb), (18000, TickCb)]"
    by (simp add: s5_def)
  ultimately show ?thesis by blast
qed

lemma nextScenario_observe:
  "observe (nextScenario 0 s) = (state s, True, POWER_SAG)"
  by (simp add: observe_def nextScenario_def startRandomScenario_def Let_def scenarios_def)

text \<open>
  Claim C9. The claim is that no scenario starts while the state is PAUSED. The timeout
  armed by \<^verbatim>\<open>endScenarioAndScheduleNext\<close> does not check the state: in the run
  \<open>restart_while_paused\<close> the line is PAUSED with no active scenario, and when the timeout
  fires at 13000 the scenario \<^verbatim>\<open>POWER_SAG\<close> is active and the state is still PAUSED.
\<close>

theorem scenario_starts_while_paused:
  "map_option observe (run restart_while_paused started) = Some (PAUSED, False, NONE) \<and>
   map_option observe (run (restart_while_paused @ [Fire 0 13000 calm]) started) =
     Some (PAUSED, True, POWER_SAG)"
proof -
  obtain s5 where r: "run restart_while_paused started = Some s5"
    and o: "observe s5 = (PAUSED, False, NONE)"
    and t: "timers s5 = [(13000, NextScenarioCb), (18000, TickCb)]"
    using restart_while_paused_run by blast
  have st: "state s5 = PAUSED" using o by (simp add: observe_def)
  have "fire 0 13000 calm s5 = Some (nextScenario 0 (s5\<lparr>timers := [(18000, TickCb)]\<rparr>))"
    by (simp add: fire_def Let_def t calm_def)
  then have "map_option observe (run (restart_while_paused @ [Fire 0 13000 calm]) started) =
     Some (PAUSED, True, POWER_SAG)"
    using r st by (simp add: run_append nextScenario_observe)
  then show ?thesis using r o by simp
qed

section \<open>The gradual restore\<close>

lemma sensor_get_set: "sensor_get n (sensor_set n v r) = v"
  by (cases n) simp_all

lemma sensor_set_set: "sensor_set n v (sensor_set n w r) = sensor_set n v r"
  by (cases n) simp_all

lemma sensor_set_get: "sensor_set n (sensor_get n r) r = r"
  by (cases n) simp_all

lemma bump_0: "bump n 0 s = s"
  by (simp add: bump_def sensor_set_get)

lemma bump_bump: "bump n d (bump n e s) = bump n (e + d) s"
  by (simp add: bump_def sensor_get_set sensor_set_set add.assoc)

lemma settle_bump: "settle n v (bump n e s) = settle n v s"
  by (simp add: bump_def settle_def sensor_set_set)

lemma restoreStep_inner:
  "Suc (step c) < steps c \<Longrightarrow>
   restoreStep now c s = (bump (sensorType c) (stepChange c) s, Some (c\<lparr>step := Suc (step c)\<rparr>))"
  by (simp add: restoreStep_def Let_def bump_def)

lemma restoreStep_last:
  "steps c \<le> Suc (step c) \<Longrightarrow>
   restoreStep now c s =
     (endScenarioAndScheduleNext now (settle (sensorType c) (targetValue c) s), None)"
  by (simp add: restoreStep_def Let_def settle_def sensor_set_set)

lemma restoreSteps_inner:
  "step c + k < steps c \<Longrightarrow>
   restoreSteps k now c s =
     (bump (sensorType c) (real k * stepChange c) s, Some (c\<lparr>step := step c + k\<rparr>))"
proof (induction k arbitrary: now c s)
  case 0
  then show ?case by (simp add: bump_0)
next
  case (Suc k)
  have a: "Suc (step c) < steps c" using Suc.prems by simp
  have b: "step (c\<lparr>step := Suc (step c)\<rparr>) + k < steps (c\<lparr>step := Suc (step c)\<rparr>)"
    using Suc.prems by simp
  show ?case
    using Suc.IH [OF b, of "now + interval c" "bump (sensorType c) (stepChange c) s"]
    by (simp add: restoreStep_inner [OF a] bump_bump algebra_simps)
qed

lemma restoreSteps_whole:
  "step c + Suc k = steps c \<Longrightarrow>
   restoreSteps (Suc k) now c s =
     (endScenarioAndScheduleNext (now + real k * interval c)
        (settle (sensorType c) (targetValue c) s), None)"
proof (induction k arbitrary: now c s)
  case 0
  then have "steps c \<le> Suc (step c)" by simp
  then show ?case by (simp add: restoreStep_last)
next
  case (Suc k)
  have a: "Suc (step c) < steps c" using Suc.prems by simp
  have b: "step (c\<lparr>step := Suc (step c)\<rparr>) + Suc k = steps (c\<lparr>step := Suc (step c)\<rparr>)"
    using Suc.prems by simp
  have "restoreSteps (Suc (Suc k)) now c s =
      restoreSteps (Suc k) (now + interval c) (c\<lparr>step := Suc (step c)\<rparr>)
        (bump (sensorType c) (stepChange c) s)"
    by (simp add: restoreStep_inner [OF a])
  also have "\<dots> = (endScenarioAndScheduleNext (now + interval c + real k * interval c)
        (settle (sensorType c) (targetValue c) s), None)"
    using Suc.IH [OF b, of "now + interval c" "bump (sensorType c) (stepChange c) s"]
    by (simp add: settle_bump)
  finally show ?case by (simp add: algebra_simps)
qed

lemma gradualRestore_arms:
  "gradualRestore n d now s =
     s\<lparr>timers := timers s @
        [(now + d / 10,
          RestoreStepCb \<lparr>sensorType = n, steps = 10, interval = d / 10, step = 0,
            targetValue = nominal n,
            stepChange = (nominal n - sensor_get n (sensors s)) / 10\<rparr>)]\<rparr>"
  by (simp add: gradualRestore_def Let_def nominal_def)

text \<open>
  Claim C7. \<^verbatim>\<open>gradualRestore\<close> arms an interval of a tenth of the duration whose closure
  holds the nominal target (140 for pressure, 70 for temperature) and a tenth of the gap
  from the current value to it. Run \<open>k < 10\<close> times in a row the callback has added \<open>k\<close>
  such steps; its tenth run writes the target itself and calls
  \<^verbatim>\<open>endScenarioAndScheduleNext\<close>. The last run of the callback does so on any engine state,
  whatever happened to the channel in between; the scenario is then ended and the next
  start is armed.
\<close>

theorem gradualRestore_ramp:
  "(let c = \<lparr>sensorType = n, steps = 10, interval = d / 10, step = 0, targetValue = nominal n,
             stepChange = (nominal n - sensor_get n (sensors s)) / 10\<rparr>
    in gradualRestore n d now s = s\<lparr>timers := timers s @ [(now + d / 10, RestoreStepCb c)]\<rparr> \<and>
       (\<forall>k<10. restoreSteps k t c s =
          (bump n (real k * ((nominal n - sensor_get n (sensors s)) / 10)) s,
           Some (c\<lparr>step := k\<rparr>))) \<and>
       restoreSteps 10 t c s =
         (endScenarioAndScheduleNext (t + 9 * (d / 10)) (settle n (nominal n) s), None)) \<and>
   (steps c' \<le> step c' + 1 \<longrightarrow>
      restoreStep t c' s' =
        (endScenarioAndScheduleNext t (settle (sensorType c') (targetValue c') s'), None)) \<and>
   sensor_get n (sensors (endScenarioAndScheduleNext t (settle n v s'))) = v \<and>
   activeScenario (endScenarioAndScheduleNext t s') = endedScenario \<and>
   timers (endScenarioAndScheduleNext t s') = timers s' @ [(t + 10000, NextScenarioCb)]"
proof -
  let ?c = "\<lparr>sensorType = n, steps = 10, interval = d / 10, step = 0, targetValue = nominal n,
             stepChange = (nominal n - sensor_get n (sensors s)) / 10\<rparr>"
  have a: "gradualRestore n d now s = s\<lparr>timers := timers s @ [(now + d / 10, RestoreStepCb ?c)]\<rparr>"
    by (rule gradualRestore_arms)
  have b: "restoreSteps k t ?c s =
          (bump n (real k * ((nominal n - sensor_get n (sensors s)) / 10)) s,
           Some (?c\<lparr>step := k\<rparr>))" if "k < 10" for k
    using that restoreSteps_inner [of ?c k t s] by simp
  have c: "restoreSteps 10 t ?c s =
         (endScenarioAndScheduleNext (t + 9 * (d / 10)) (settle n (nominal n) s), None)"
    using restoreSteps_whole [of ?c 9 t s] by (simp add: eval_nat_numeral)
  have d: "restoreStep t c' s' =
        (endScenarioAndScheduleNext t (settle (sensorType c') (targetValue c') s'), None)"
    if "steps c' \<le> step c' + 1"
    using that restoreStep_last [of c' t s'] by simp
  have e: "sensor_get n (sensors (endScenarioAndScheduleNext t (settle n v s'))) = v"
    by (simp add: sensors_endScenarioAndScheduleNext settle_def sensor_get_set)
  have f: "activeScenario (endScenarioAndScheduleNext t s') = endedScenario"
    by (simp add: activeScenario_endScenarioAndScheduleNext endedScenario_def)
  have g: "timers (endScenarioAndScheduleNext t s') = timers s' @ [(t + 10000, NextScenarioCb)]"
    by (simp add: endScenarioAndScheduleNext_frame)
  show ?thesis
    unfolding Let_def using a b c d e f g by blast
qed

text \<open>The ramp from 120 bar: 126 after three steps, 140 after ten, scenario ended.\<close>

lemma lowPressure_pressure: "pressure (sensors lowPressure) = 120"
  by (simp add: lowPressure_def)

theorem gradualRestore_ramp_witness:
  "(3::nat) < 10 \<and>
   pressure (sensors (fst (restoreSteps 3 500 lowPressureRamp lowPressure))) = 126 \<and>
   steps (lowPressureRamp\<lparr>step := 9\<rparr>) \<le> step (lowPressureRamp\<lparr>step := 9\<rparr>) + 1 \<and>
   pressure (sensors (fst (restoreStep 5000 (lowPressureRamp\<lparr>step := 9\<rparr>) lowPressure))) = 140 \<and>
   pressure (sensors (fst (restoreSteps 10 500 lowPressureRamp lowPressure))) = 140 \<and>
   \<not> active (activeScenario (fst (restoreSteps 10 500 lowPressureRamp lowPressure)))"
proof -
  note th = gradualRestore_ramp [where n = Pressure and d = 5000 and s = lowPressure
      and t = 500 and c' = "lowPressureRamp\<lparr>step := 9\<rparr>" and s' = lowPressure and now = 0
      and v = 140]
  have c: "\<lparr>sensorType = Pressure, steps = 10, interval = 5000 / 10, step = 0,
      targetValue = nominal Pressure,
      stepChange = (nominal Pressure - sensor_get Pressure (sensors lowPressure)) / 10\<rparr> =
      lowPressureRamp"
    by (simp add: lowPressureRamp_def nominal_def lowPressure_pressure)
  have hyp: "steps (lowPressureRamp\<lparr>step := 9\<rparr>) \<le> step (lowPressureRamp\<lparr>step := 9\<rparr>) + 1"
    by (simp add: lowPressureRamp_def)
  from th have inner: "\<forall>k<10. restoreSteps k 500 lowPressureRamp lowPressure =
      (bump Pressure (real k * ((nominal Pressure - sensor_get Pressure (sensors lowPressure)) / 10))
         lowPressure, Some (lowPressureRamp\<lparr>step := k\<rparr>))"
    unfolding Let_def c by blast
  from th have whole: "restoreSteps 10 500 lowPressureRamp lowPressure =
      (endScenarioAndScheduleNext (500 + 9 * (5000 / 10)) (settle Pressure (nominal Pressure) lowPressure),
       None)"
    unfolding Let_def c by blast
  have three: "restoreSteps 3 500 lowPressureRamp lowPressure =
      (bump Pressure (real 3 * ((nominal Pressure - sensor_get Pressure (sensors lowPressure)) / 10))
         lowPressure, Some (lowPressureRamp\<lparr>step := 3\<rparr>))"
    using inner by simp
  have p3: "pressure (sensors (fst (restoreSteps 3 500 lowPressureRamp lowPressure))) = 126"
    unfolding three by (simp add: bump_def nominal_def lowPressure_pressure)
  have p9: "pressure (sensors (fst (restoreStep 5000 (lowPressureRamp\<lparr>step := 9\<rparr>) lowPressure))) = 140"
    using hyp gradualRestore_ramp [where c' = "lowPressureRamp\<lparr>step := 9\<rparr>" and s' = lowPressure
        and t = 5000]
    by (simp add: sensors_endScenarioAndScheduleNext settle_def lowPressureRamp_def)
  have p10: "pressure (sensors (fst (restoreSteps 10 500 lowPressureRamp lowPressure))) = 140"
    unfolding whole by (simp add: sensors_endScenarioAndScheduleNext settle_def nominal_def)
  have a10: "\<not> active (activeScenario (fst (restoreSteps 10 500 lowPressureRamp lowPressure)))"
    unfolding whole by (simp add: activeScenario_endScenarioAndScheduleNext)
  show ?thesis using hyp p3 p9 p10 a10 by simp
qed

section \<open>Leaving the paused state\<close>











end
